theory Spec2Isabelle
  imports Main
begin

section \<open>JavaScript values\<close>

text \<open>
  The class \<open>Migration\<close> of \<^verbatim>\<open>src/migration.ts\<close> handles values of type \<open>any\<close>: the
  options object, the migration definition module, the functions stored in both and
  whatever these functions return. They are modelled by one datatype of JavaScript values.

  \<^item> A function value is an identity: \<open>UserFn n\<close> is the \<open>n\<close>-th function supplied by the
    caller (its behaviour is part of the environment below), \<open>DefaultNameFormatter\<close> is the
    closure \<^verbatim>\<open>(path) => _path.basename(path)\<close> that the constructor installs.
  \<^item> An object is the sequence of its property definitions, in the order an object literal
    writes them; a later definition of a key overrides an earlier one.
  \<^item> A promise is modelled by its settlement: \<open>JResolved v\<close> or \<open>JRejected e\<close>.
  \<^item> \<open>JError msg\<close> is \<^verbatim>\<open>new Error(msg)\<close>; \<open>JTypeError\<close> is a \<open>TypeError\<close> raised by the
    engine (its message is engine specific and not modelled).
  \<^item> Numbers are the integers and \<open>NaN\<close>: the program only tests a number for truthiness
    and for its type. Objects hold data properties only (no getters), and functions,
    arrays, promises and errors carry no properties of their own beyond their built-in ones.
\<close>

datatype fn = DefaultNameFormatter | UserFn nat

datatype jsval =
    JUndefined
  | JNull
  | JBool bool
  | JNum int
  | JNaN
  | JStr string
  | JFun fn
  | JObj "(string \<times> jsval) list"
  | JArr "jsval list"
  | JResolved jsval
  | JRejected jsval
  | JError string
  | JTypeError

text \<open>Truthiness, as tested by \<^verbatim>\<open>!x\<close> and \<^verbatim>\<open>&&\<close>.\<close>

fun truthy :: "jsval \<Rightarrow> bool" where
  "truthy JUndefined = False"
| "truthy JNull = False"
| "truthy (JBool b) = b"
| "truthy (JNum n) = (n \<noteq> 0)"
| "truthy JNaN = False"
| "truthy (JStr s) = (s \<noteq> [])"
| "truthy _ = True"

text \<open>The operator \<^verbatim>\<open>typeof\<close>.\<close>

fun typeof :: "jsval \<Rightarrow> string" where
  "typeof JUndefined = ''undefined''"
| "typeof JNull = ''object''"
| "typeof (JBool _) = ''boolean''"
| "typeof (JNum _) = ''number''"
| "typeof JNaN = ''number''"
| "typeof (JStr _) = ''string''"
| "typeof (JFun _) = ''function''"
| "typeof _ = ''object''"

text \<open>
  Reading a property \<^verbatim>\<open>v.k\<close>. On \<open>undefined\<close> and \<open>null\<close> the read throws a \<open>TypeError\<close>.
  On an object the last definition of the key counts, an absent key reads \<open>undefined\<close>.
  The keys the program reads (\<open>migrations\<close>, \<open>nameFormatter\<close>, \<open>customResolver\<close>, \<open>wrap\<close>,
  \<open>up\<close>, \<open>down\<close>, \<open>default\<close>) are not defined on the built-in prototypes, so on every other
  value they read \<open>undefined\<close>. The two prototype methods the program does rely on,
  \<open>then\<close> of a promise and \<open>apply\<close> of a function, are handled by \<open>has_then\<close> and
  \<open>apply_target\<close> below.
\<close>

fun lookup :: "(string \<times> jsval) list \<Rightarrow> string \<Rightarrow> jsval" where
  "lookup fs k = (case map_of (rev fs) k of None \<Rightarrow> JUndefined | Some v \<Rightarrow> v)"

fun get_prop :: "jsval \<Rightarrow> string \<Rightarrow> jsval + jsval" where
  "get_prop JUndefined k = Inl JTypeError"
| "get_prop JNull k = Inl JTypeError"
| "get_prop (JObj fs) k = Inr (lookup fs k)"
| "get_prop _ k = Inr JUndefined"

text \<open>Decimal rendering of an array index, as used for the keys of a spread string or array.\<close>

fun show_nat :: "nat \<Rightarrow> string" where
  "show_nat n =
     (if n < 10 then [char_of (48 + n)]
      else show_nat (n div 10) @ [char_of (48 + n mod 10)])"

declare show_nat.simps [simp del]

text \<open>
  The own enumerable properties that \<^verbatim>\<open>{...v}\<close> copies: those of an object, the indexed
  characters of a string, the indexed elements of an array, and none for every other value
  (\<open>undefined\<close> and \<open>null\<close> included).
\<close>

fun spread :: "jsval \<Rightarrow> (string \<times> jsval) list" where
  "spread (JObj fs) = fs"
| "spread (JStr s) = map (\<lambda>i. (show_nat i, JStr [s ! i])) [0..<length s]"
| "spread (JArr vs) = map (\<lambda>i. (show_nat i, vs ! i)) [0..<length vs]"
| "spread _ = []"

section \<open>Node's path module (POSIX)\<close>

text \<open>
  \<^verbatim>\<open>path.basename(p)\<close>: trailing slashes are dropped, then everything up to the last
  slash.
\<close>

definition slash :: char where
  "slash = CHR ''/''"

definition basename :: "string \<Rightarrow> string" where
  "basename p =
     rev (takeWhile (\<lambda>c. c \<noteq> slash) (dropWhile (\<lambda>c. c = slash) (rev p)))"

text \<open>Splitting a path at its slashes.\<close>

fun segments :: "string \<Rightarrow> string \<Rightarrow> string list" where
  "segments acc [] = [rev acc]"
| "segments acc (c # cs) =
     (if c = slash then rev acc # segments [] cs else segments (c # acc) cs)"

text \<open>
  Normalisation of the segments of an absolute path: empty segments and \<open>.\<close> are dropped,
  \<open>..\<close> removes the segment before it (and is dropped at the root). The stack holds the
  segments kept so far, last one first.
\<close>

fun normalize :: "string list \<Rightarrow> string list \<Rightarrow> string list" where
  "normalize stack [] = rev stack"
| "normalize stack (s # ss) =
     (if s = [] \<or> s = ''.'' then normalize stack ss
      else if s = ''..'' then normalize (tl stack) ss
      else normalize (s # stack) ss)"

fun join_segments :: "string list \<Rightarrow> string" where
  "join_segments [] = []"
| "join_segments [s] = s"
| "join_segments (s # ss) = s @ [slash] @ join_segments ss"

text \<open>
  \<^verbatim>\<open>path.resolve(p)\<close> with the working directory \<open>wd\<close> (an absolute path): a relative or
  empty \<open>p\<close> is taken from \<open>wd\<close>, the result is absolute and normalised.
\<close>

definition resolve :: "string \<Rightarrow> string \<Rightarrow> string" where
  "resolve wd p =
     (let full = (if p = [] then wd
                  else if hd p = slash then p
                  else wd @ [slash] @ p)
      in slash # join_segments (normalize [] (segments [] full)))"

section \<open>The environment: caller-supplied code\<close>

text \<open>
  The program calls code it does not contain: Node's \<^verbatim>\<open>require\<close>, the functions of the
  options object (\<open>nameFormatter\<close>, \<open>customResolver\<close>, \<open>wrap\<close>) and the \<open>up\<close> and \<open>down\<close>
  functions of a migration definition. The environment fixes what each of them does:
  \<^item> \<open>cwd\<close>: the working directory of the process, used by \<^verbatim>\<open>path.resolve\<close>;
  \<^item> \<open>require_module p\<close>: the module \<^verbatim>\<open>require(p)\<close> returns, or the value it throws;
  \<^item> \<open>invoke n this args\<close>: the value the \<open>n\<close>-th caller-supplied function returns when
    called on the receiver \<open>this\<close> with the arguments \<open>args\<close>, or the value it throws;
  \<^item> \<open>adopt v\<close>: how \<^verbatim>\<open>await v\<close> ends for a thenable \<open>v\<close> that is not a native promise
    (the value it resolves with, or the reason it rejects with).
  \<open>Inl\<close> is a thrown value or a rejection, \<open>Inr\<close> a normal result. Every call made by
  the program is recorded in a trace of events, so that theorems can speak of which calls
  were made and in which order.
\<close>

record env =
  cwd :: string
  require_module :: "string \<Rightarrow> jsval + jsval"
  invoke :: "nat \<Rightarrow> jsval \<Rightarrow> jsval list \<Rightarrow> jsval + jsval"
  adopt :: "jsval \<Rightarrow> jsval + jsval"

datatype event =
    FormatName jsval string
  | Require string
  | CustomResolve jsval string
  | Wrap jsval jsval
  | Invoke string string jsval jsval "jsval list"

text \<open>
  \<open>FormatName f p\<close>: the name formatter \<open>f\<close> was called on \<open>p\<close>. \<open>Require p\<close>:
  \<^verbatim>\<open>require(p)\<close>. \<open>CustomResolve f p\<close>: the custom resolver \<open>f\<close> was called on \<open>p\<close>.
  \<open>Wrap w f\<close>: the wrapper \<open>w\<close> was called on the method \<open>f\<close>.
  \<open>Invoke file method g this args\<close>: the wrapped method \<open>g\<close> of the migration named \<open>file\<close>
  was called; this is the invocation of the migration's action.
\<close>

text \<open>
  Calling a value \<^verbatim>\<open>f.call(this, ...args)\<close>: a value that is not a function cannot be
  called (\<open>TypeError\<close>); \<^verbatim>\<open>path.basename\<close> rejects an argument that is not a string.
\<close>

definition default_name_formatter :: "jsval list \<Rightarrow> jsval + jsval" where
  "default_name_formatter args =
     (case args of
        [] \<Rightarrow> Inl JTypeError
      | a # _ \<Rightarrow> (case a of JStr p \<Rightarrow> Inr (JStr (basename p)) | _ \<Rightarrow> Inl JTypeError))"

definition call :: "env \<Rightarrow> jsval \<Rightarrow> jsval \<Rightarrow> jsval list \<Rightarrow> jsval + jsval" where
  "call E f this args =
     (case f of
        JFun g \<Rightarrow>
          (case g of
             DefaultNameFormatter \<Rightarrow> default_name_formatter args
           | UserFn n \<Rightarrow> invoke E n this args)
      | _ \<Rightarrow> Inl JTypeError)"

text \<open>
  \<^verbatim>\<open>wrappedFun.apply(migration, args)\<close>: which function is called, on which receiver and
  with which arguments. For a function value \<open>apply\<close> is \<open>Function.prototype.apply\<close>, which
  calls the function itself on \<open>migration\<close> and \<open>args\<close>. \<open>undefined\<close> and \<open>null\<close> have no
  properties; any other value is asked for its own \<open>apply\<close> property, which is called as
  a method of that value with the two arguments \<open>migration\<close> and the array \<open>args\<close>.
\<close>

fun apply_target :: "jsval \<Rightarrow> jsval \<Rightarrow> jsval list \<Rightarrow> jsval + (jsval \<times> jsval \<times> jsval list)" where
  "apply_target (JFun f) this args = Inr (JFun f, this, args)"
| "apply_target w this args =
     (case get_prop w ''apply'' of
        Inl e \<Rightarrow> Inl e
      | Inr a \<Rightarrow> if typeof a = ''function'' then Inr (a, w, [this, JArr args])
                 else Inl JTypeError)"

text \<open>\<^verbatim>\<open>typeof result.then === 'function'\<close>, for a truthy \<open>result\<close>.\<close>

fun has_then :: "jsval \<Rightarrow> bool" where
  "has_then (JResolved v) = True"
| "has_then (JRejected e) = True"
| "has_then (JObj fs) = (typeof (lookup fs ''then'') = ''function'')"
| "has_then _ = False"

text \<open>\<^verbatim>\<open>await result\<close>, for a \<open>result\<close> that passed the test above.\<close>

fun await :: "env \<Rightarrow> jsval \<Rightarrow> jsval + jsval" where
  "await E (JResolved v) = Inr v"
| "await E (JRejected e) = Inl e"
| "await E v = adopt E v"

section \<open>The class Migration\<close>

record Migration =
  path :: string
  options :: jsval
  "file" :: string

definition quote :: string where
  "quote = [CHR 0x27]"

text \<open>
  The constructor:
  \<^verbatim>\<open>
  constructor(public readonly path: string, public readonly options?: any) {
    this.path = _path.resolve(path);
    this.options = {
      ...options,
      migrations: {
        nameFormatter: (path) => _path.basename(path),
        ...options.migrations,
      },
    };
    this.file = this.options.migrations.nameFormatter(this.path);
    if (typeof this.file !== 'string') {
      throw new Error(`Unexpected migration formatter result for '${this.path}':
        expected string, got ${typeof this.file}`);
    }
  }
  \<close>
  \<open>this.path\<close> is the resolved path. Reading \<^verbatim>\<open>options.migrations\<close> throws when
  \<open>options\<close> is \<open>undefined\<close> or \<open>null\<close>. The name formatter found in the merged object is
  called on the resolved path (a value that is not a function cannot be called), and the
  constructor throws unless it returns a string. \<open>Inl\<close> is the thrown value: no object is
  created.
\<close>

definition merged_migrations :: "jsval \<Rightarrow> (string \<times> jsval) list" where
  "merged_migrations om = (''nameFormatter'', JFun DefaultNameFormatter) # spread om"

definition Migration_new ::
  "env \<Rightarrow> string \<Rightarrow> jsval \<Rightarrow> event list \<Rightarrow> (jsval + Migration) \<times> event list" where
  "Migration_new E p opts tr =
     (let rpath = resolve (cwd E) p in
      case get_prop opts ''migrations'' of
        Inl e \<Rightarrow> (Inl e, tr)
      | Inr om \<Rightarrow>
          (let migs = merged_migrations om;
               merged = JObj (spread opts @ [(''migrations'', JObj migs)]);
               nf = lookup migs ''nameFormatter''
           in if typeof nf \<noteq> ''function'' then (Inl JTypeError, tr)
              else
                (case call E nf (JObj migs) [JStr rpath] of
                   Inl e \<Rightarrow> (Inl e, tr @ [FormatName nf rpath])
                 | Inr v \<Rightarrow>
                     (case v of
                        JStr s \<Rightarrow>
                          (Inr \<lparr>path = rpath, options = merged, file = s\<rparr>,
                           tr @ [FormatName nf rpath])
                      | _ \<Rightarrow>
                          (Inl (JError (''Unexpected migration formatter result for ''
                                  @ quote @ rpath @ quote @ '': expected string, got ''
                                  @ typeof v)),
                           tr @ [FormatName nf rpath])))))"

text \<open>
  \<^verbatim>\<open>return v\<close> in an \<open>async\<close> function, as seen by the caller that awaits the call: a
  thenable \<open>v\<close> is adopted (the caller receives what it settles with), any other value
  is received as it is.
\<close>

definition async_return :: "env \<Rightarrow> jsval \<Rightarrow> jsval + jsval" where
  "async_return E v = (if has_then v then await E v else Inr v)"

text \<open>
  \<open>migration()\<close>:
  \<^verbatim>\<open>
  async migration(): Promise<MigrationDefinition> {
    let result;
    if (typeof this.options.migrations.customResolver === 'function') {
      result = this.options.migrations.customResolver(this.path);
    } else {
      result = require(this.path);
    }
    if (!result) {
      throw new Error(`Failed to obtain migration definition module for '${this.path}'`);
    }
    if (!result.up && !result.down && result.default) {
      result = result.default;
    }
    return result;
  }
  \<close>
  The module is obtained through the custom resolver if there is one, through
  \<^verbatim>\<open>require\<close> otherwise (\<open>obtain_module\<close>). A falsy result is an error. A result whose
  \<open>up\<close> and \<open>down\<close> are both falsy and whose \<open>default\<close> is truthy is replaced by its
  \<open>default\<close>. The result is returned from an \<open>async\<close> function.
\<close>

definition obtain_module ::
  "env \<Rightarrow> Migration \<Rightarrow> jsval \<Rightarrow> jsval \<Rightarrow> event list \<Rightarrow> (jsval + jsval) \<times> event list" where
  "obtain_module E m migs cr tr =
     (if typeof cr = ''function''
      then (call E cr migs [JStr (path m)], tr @ [CustomResolve cr (path m)])
      else (require_module E (path m), tr @ [Require (path m)]))"

definition migration ::
  "env \<Rightarrow> Migration \<Rightarrow> event list \<Rightarrow> (jsval + jsval) \<times> event list" where
  "migration E m tr =
     (case get_prop (options m) ''migrations'' of
        Inl e \<Rightarrow> (Inl e, tr)
      | Inr migs \<Rightarrow>
     (case get_prop migs ''customResolver'' of
        Inl e \<Rightarrow> (Inl e, tr)
      | Inr cr \<Rightarrow>
     (case obtain_module E m migs cr tr of
        (Inl e, tr1) \<Rightarrow> (Inl e, tr1)
      | (Inr result, tr1) \<Rightarrow>
          if \<not> truthy result
          then (Inl (JError (''Failed to obtain migration definition module for ''
                       @ quote @ path m @ quote)), tr1)
          else
            (case get_prop result ''up'' of
               Inl e \<Rightarrow> (Inl e, tr1)
             | Inr u \<Rightarrow>
            (case get_prop result ''down'' of
               Inl e \<Rightarrow> (Inl e, tr1)
             | Inr d \<Rightarrow>
            (case get_prop result ''default'' of
               Inl e \<Rightarrow> (Inl e, tr1)
             | Inr df \<Rightarrow>
                 if \<not> truthy u \<and> \<not> truthy d \<and> truthy df then (async_return E df, tr1)
                 else (async_return E result, tr1)))))))"

text \<open>
  \<open>_exec(method, args)\<close>:
  \<^verbatim>\<open>
  async _exec(method, args): Promise<void> {
    const migration = await this.migration();
    let fun = migration[method];
    if (!fun) throw new Error('Could not find migration method: ' + method);
    const wrappedFun = this.options.migrations.wrap(fun);
    const result = wrappedFun.apply(migration, args);
    if (!result || typeof result.then !== 'function') {
      throw new Error(`Migration ${this.file} (or wrapper) didn't return a promise`);
    }
    await result;
  }
  \<close>
  The method is private; \<open>up\<close> and \<open>down\<close> call it with \<open>'up'\<close> and \<open>'down'\<close>.
\<close>

definition Migration_exec ::
  "env \<Rightarrow> Migration \<Rightarrow> string \<Rightarrow> jsval list \<Rightarrow> event list \<Rightarrow> (jsval + unit) \<times> event list" where
  "Migration_exec E m method args tr =
     (case migration E m tr of
        (Inl e, tr1) \<Rightarrow> (Inl e, tr1)
      | (Inr mig, tr1) \<Rightarrow>
     (case get_prop mig method of
        Inl e \<Rightarrow> (Inl e, tr1)
      | Inr f \<Rightarrow>
          if \<not> truthy f
          then (Inl (JError (''Could not find migration method: '' @ method)), tr1)
          else
     (case get_prop (options m) ''migrations'' of
        Inl e \<Rightarrow> (Inl e, tr1)
      | Inr migs \<Rightarrow>
     (case get_prop migs ''wrap'' of
        Inl e \<Rightarrow> (Inl e, tr1)
      | Inr w \<Rightarrow>
          if typeof w \<noteq> ''function'' then (Inl JTypeError, tr1)
          else
     (case call E w migs [f] of
        Inl e \<Rightarrow> (Inl e, tr1 @ [Wrap w f])
      | Inr wrappedFun \<Rightarrow>
     (case apply_target wrappedFun mig args of
        Inl e \<Rightarrow> (Inl e, tr1 @ [Wrap w f])
      | Inr (g, this, as) \<Rightarrow>
          (let tr2 = tr1 @ [Wrap w f, Invoke (file m) method g this as] in
           case call E g this as of
             Inl e \<Rightarrow> (Inl e, tr2)
           | Inr result \<Rightarrow>
               if \<not> truthy result \<or> \<not> has_then result
               then (Inl (JError (''Migration '' @ file m @ '' (or wrapper) didn'' @ quote
                            @ ''t return a promise'')), tr2)
               else
                 (case await E result of
                    Inl e \<Rightarrow> (Inl e, tr2)
                  | Inr v \<Rightarrow> (Inr (), tr2)))))))))"

text \<open>
  \<open>up(...args)\<close> and \<open>down(...args)\<close>:
  \<^verbatim>\<open>
  async up(...args): Promise<void> { await this._exec('up', args); }
  async down(...args): Promise<void> { return this._exec('down', args); }
  \<close>
\<close>

definition Migration_up ::
  "env \<Rightarrow> Migration \<Rightarrow> jsval list \<Rightarrow> event list \<Rightarrow> (jsval + unit) \<times> event list" where
  "Migration_up E m args tr = Migration_exec E m ''up'' args tr"

definition Migration_down ::
  "env \<Rightarrow> Migration \<Rightarrow> jsval list \<Rightarrow> event list \<Rightarrow> (jsval + unit) \<times> event list" where
  "Migration_down E m args tr = Migration_exec E m ''down'' args tr"

text \<open>The action invocations of a trace: which migration, which method, in the order made.\<close>

fun invocations :: "event list \<Rightarrow> (string \<times> string) list" where
  "invocations [] = []"
| "invocations (Invoke f meth g this args # tr) = (f, meth) # invocations tr"
| "invocations (e # tr) = invocations tr"

text \<open>The two public entry points, selected by a direction.\<close>

datatype direction = Up | Down

fun method_name :: "direction \<Rightarrow> string" where
  "method_name Up = ''up''"
| "method_name Down = ''down''"

fun run :: "env \<Rightarrow> Migration \<Rightarrow> direction \<Rightarrow> jsval list \<Rightarrow> event list \<Rightarrow> (jsval + unit) \<times> event list" where
  "run E m Up args tr = Migration_up E m args tr"
| "run E m Down args tr = Migration_down E m args tr"

declare run.simps [simp del]

section \<open>The orchestrator and the storage adapter\<close>

text \<open>
  Modelled from the spec: the engine (\<^verbatim>\<open>src/umzug.ts\<close>: \<open>up\<close>, \<open>executed\<close>, \<open>pending\<close>)
  and the storage adapters are not among the source files. The definitions of this section
  follow sections 3, 4.3, 4.4 and 7 of the spec. The units of a resolved sequence are
  \<open>Migration\<close> objects as modelled above, \<open>runUp\<close> is their \<open>up\<close>, and the name of a unit
  is its \<open>file\<close> field. Of the engine, \<open>executed()\<close>, \<open>pending()\<close> and \<open>up()\<close> without a
  selection argument are modelled.

  The Execution Record is the list of recorded names, oldest first.
\<close>

text \<open>
  Modelled from the spec: the storage adapter implementations are not among the source
  files. Any adapter operation may fail with a \<open>StorageError\<close> (section 4.3): the fault
  oracle says for which operation on which record it does, and with which cause.
\<close>

datatype storage_op = LogMigration string | UnlogMigration string | Executed

type_synonym fault = "storage_op \<Rightarrow> string list \<Rightarrow> jsval option"

text \<open>Modelled from the spec: the storage adapter is absent; this one never fails.\<close>

definition no_fault :: fault where
  "no_fault op ns = None"

text \<open>
  Modelled from the spec: \<open>logMigration(name)\<close> of the absent storage adapter records the
  name; the record is a set of names, so a name already recorded is not recorded twice.
\<close>

definition logMigration :: "fault \<Rightarrow> string \<Rightarrow> string list \<Rightarrow> jsval + string list" where
  "logMigration F n ns =
     (case F (LogMigration n) ns of
        Some e \<Rightarrow> Inl e
      | None \<Rightarrow> Inr (if n \<in> set ns then ns else ns @ [n]))"

text \<open>
  Modelled from the spec: \<open>executed()\<close> of the absent storage adapter returns the recorded
  names.
\<close>

definition storage_executed :: "fault \<Rightarrow> string list \<Rightarrow> jsval + string list" where
  "storage_executed F ns =
     (case F Executed ns of
        Some e \<Rightarrow> Inl e
      | None \<Rightarrow> Inr ns)"

text \<open>
  Modelled from the spec: the errors of the engine (section 7). \<open>ExecutionError\<close> carries
  the name of the failed unit, the direction, the cause and the names committed by the
  call before the failure.
\<close>

datatype umzug_error =
    StorageError jsval
  | ExecutionError string direction jsval "string list"

text \<open>
  Modelled from the spec: the state the absent engine works on: the Execution Record
  held by the storage adapter, and the trace of the calls made so far.
\<close>

record world =
  names :: "string list"
  trace :: "event list"

text \<open>
  Modelled from the spec: \<open>executed()\<close> and \<open>pending()\<close> return the units of the sequence
  that are, respectively are not, in the Execution Record, in sequence order.
\<close>

definition Umzug_executed :: "fault \<Rightarrow> Migration list \<Rightarrow> world \<Rightarrow> umzug_error + Migration list" where
  "Umzug_executed F S w =
     (case storage_executed F (names w) of
        Inl e \<Rightarrow> Inl (StorageError e)
      | Inr ns \<Rightarrow> Inr (filter (\<lambda>u. file u \<in> set ns) S))"

definition Umzug_pending :: "fault \<Rightarrow> Migration list \<Rightarrow> world \<Rightarrow> umzug_error + Migration list" where
  "Umzug_pending F S w =
     (case storage_executed F (names w) of
        Inl e \<Rightarrow> Inl (StorageError e)
      | Inr ns \<Rightarrow> Inr (filter (\<lambda>u. file u \<notin> set ns) S))"

text \<open>
  Modelled from the spec: the execution loop of \<open>up\<close>. For each unit in order: \<open>runUp\<close>, on
  success \<open>logMigration\<close>, on failure stop and raise. \<open>committed\<close> holds the names
  committed so far by this call.
\<close>

fun execute_up ::
  "env \<Rightarrow> fault \<Rightarrow> jsval list \<Rightarrow> Migration list \<Rightarrow> string list \<Rightarrow> world
     \<Rightarrow> (umzug_error + string list) \<times> world" where
  "execute_up E F args [] committed w = (Inr committed, w)"
| "execute_up E F args (u # us) committed w =
     (case run E u Up args (trace w) of
        (Inl e, tr) \<Rightarrow> (Inl (ExecutionError (file u) Up e committed), w\<lparr>trace := tr\<rparr>)
      | (Inr _, tr) \<Rightarrow>
          (case logMigration F (file u) (names w) of
             Inl e \<Rightarrow> (Inl (StorageError e), w\<lparr>trace := tr\<rparr>)
           | Inr ns \<Rightarrow> execute_up E F args us (committed @ [file u]) \<lparr>names = ns, trace = tr\<rparr>))"

text \<open>
  Modelled from the spec: \<open>up()\<close> without a selection runs all pending units, computed
  from the Execution Record at the moment of the call. The result is the list of names run.
\<close>

definition Umzug_up ::
  "env \<Rightarrow> fault \<Rightarrow> jsval list \<Rightarrow> Migration list \<Rightarrow> world \<Rightarrow> (umzug_error + string list) \<times> world" where
  "Umzug_up E F args S w =
     (case Umzug_pending F S w of
        Inl e \<Rightarrow> (Inl e, w)
      | Inr todo \<Rightarrow> execute_up E F args todo [] w)"

section \<open>Resolution of a glob source\<close>





section \<open>A concrete environment for the examples\<close>

text \<open>
  The caller-supplied functions of the examples, by number:
  0 is the wrapper \<^verbatim>\<open>fn => fn\<close>; 1 is an action that returns a resolved promise; 2 is an
  action that returns \<open>undefined\<close>; 3 is an action that throws; 4 to 8 and 10 are custom
  resolvers (4 returns a definition with \<open>up\<close> and \<open>down\<close>, 5 one with \<open>up\<close> only, 6
  returns \<open>undefined\<close>, 7 a definition whose actions return no promise, 8 one whose
  actions throw, 10 a definition nested under two \<open>default\<close> fields); 9 is a name
  formatter that returns a number; 11 is a custom resolver whose definition has the
  action 12, which returns a rejected promise. \<^verbatim>\<open>require\<close> returns \<open>null\<close> for every
  path.
\<close>

definition demo_invoke :: "nat \<Rightarrow> jsval \<Rightarrow> jsval list \<Rightarrow> jsval + jsval" where
  "demo_invoke n this args =
     (if n = 0 then (case args of [] \<Rightarrow> Inr JUndefined | f # _ \<Rightarrow> Inr f)
      else if n = 1 then Inr (JResolved JUndefined)
      else if n = 2 then Inr JUndefined
      else if n = 3 then Inl (JError ''boom'')
      else if n = 4 then Inr (JObj [(''up'', JFun (UserFn 1)), (''down'', JFun (UserFn 1))])
      else if n = 5 then Inr (JObj [(''up'', JFun (UserFn 1))])
      else if n = 6 then Inr JUndefined
      else if n = 7 then Inr (JObj [(''up'', JFun (UserFn 2)), (''down'', JFun (UserFn 2))])
      else if n = 8 then Inr (JObj [(''up'', JFun (UserFn 3)), (''down'', JFun (UserFn 3))])
      else if n = 9 then Inr (JNum 7)
      else if n = 10 then
        Inr (JObj [(''default'', JObj [(''default'', JObj [(''up'', JFun (UserFn 1))])])])
      else if n = 11 then Inr (JObj [(''up'', JFun (UserFn 12)), (''down'', JFun (UserFn 12))])
      else if n = 12 then Inr (JRejected (JError ''nope''))
      else Inr JUndefined)"

definition demo_env :: env where
  "demo_env =
     \<lparr>cwd = ''/app'', require_module = (\<lambda>p. Inr JNull), invoke = demo_invoke,
      adopt = (\<lambda>v. Inr JUndefined)\<rparr>"

text \<open>The options \<^verbatim>\<open>{migrations: {wrap: fn => fn, customResolver: r}}\<close>.\<close>

definition demo_migrations :: "nat \<Rightarrow> jsval" where
  "demo_migrations r = JObj [(''wrap'', JFun (UserFn 0)), (''customResolver'', JFun (UserFn r))]"

definition demo_options :: "nat \<Rightarrow> jsval" where
  "demo_options r = JObj [(''migrations'', demo_migrations r)]"

text \<open>The unit that the constructor builds from the path \<open>n\<close> and \<open>demo_options r\<close>.\<close>

definition demo_unit :: "string \<Rightarrow> nat \<Rightarrow> Migration" where
  "demo_unit n r =
     \<lparr>path = ''/app/'' @ n,
      options = JObj (spread (demo_options r)
                  @ [(''migrations'', JObj (merged_migrations (demo_migrations r)))]),
      file = n\<rparr>"

definition fresh :: world where
  "fresh = \<lparr>names = [], trace = []\<rparr>"


section \<open>Auxiliary facts\<close>

lemmas demo_defs =
  demo_env_def demo_invoke_def demo_migrations_def demo_options_def demo_unit_def
  merged_migrations_def migration_def obtain_module_def async_return_def call_def
  Migration_exec_def Migration_up_def Migration_down_def run.simps quote_def Let_def

lemmas engine_defs =
  Umzug_up_def Umzug_pending_def Umzug_executed_def storage_executed_def
  logMigration_def no_fault_def fresh_def

lemma no_fault_None: "no_fault op ns = None"
  by (simp add: no_fault_def)

lemma invocations_append: "invocations (xs @ ys) = invocations xs @ invocations ys"
  by (induction xs rule: invocations.induct) auto

lemma run_exec: "run E m d args tr = Migration_exec E m (method_name d) args tr"
  by (cases d) (simp_all add: run.simps Migration_up_def Migration_down_def)

lemma call_Inr_function: "call E f this args = Inr v \<Longrightarrow> typeof f = ''function''"
  by (cases f) (auto simp: call_def)

text \<open>The trace a call starts from does not influence it: the call only appends to it.\<close>

lemma obtain_module_trace:
  "obtain_module E m migs cr tr =
     (fst (obtain_module E m migs cr []), tr @ snd (obtain_module E m migs cr []))"
  by (simp add: obtain_module_def)

lemma migration_trace:
  "migration E m tr = (fst (migration E m []), tr @ snd (migration E m []))"
proof -
  have *: "\<And>migs cr. obtain_module E m migs cr tr =
     (fst (obtain_module E m migs cr []), tr @ snd (obtain_module E m migs cr []))"
    by (rule obtain_module_trace)
  show ?thesis
    unfolding migration_def
    by (auto split: sum.splits prod.splits simp: * )
qed

lemma Migration_exec_trace:
  "Migration_exec E m meth args tr =
     (fst (Migration_exec E m meth args []), tr @ snd (Migration_exec E m meth args []))"
proof -
  obtain r t where rt: "migration E m [] = (r, t)" by (cases "migration E m []")
  then have "migration E m tr = (r, tr @ t)" using migration_trace [of E m tr] by simp
  with rt show ?thesis
    unfolding Migration_exec_def
    by (auto split: sum.splits prod.splits simp: Let_def)
qed

lemma run_trace:
  "run E m d args tr = (fst (run E m d args []), tr @ snd (run E m d args []))"
  unfolding run_exec by (rule Migration_exec_trace)

text \<open>Obtaining the definition invokes no action; a call that completes invokes one.\<close>

lemma obtain_module_invocations:
  "obtain_module E m migs cr tr = (r, tr1) \<Longrightarrow> invocations tr1 = invocations tr"
  by (auto simp: obtain_module_def invocations_append split: if_splits)

lemma migration_invocations:
  "migration E m tr = (r, tr1) \<Longrightarrow> invocations tr1 = invocations tr"
  unfolding migration_def
  by (auto split: sum.splits prod.splits if_splits dest: obtain_module_invocations)

lemma exec_invocations_ok:
  assumes "fst (Migration_exec E m meth args []) = Inr x"
  shows "invocations (snd (Migration_exec E m meth args [])) = [(file m, meth)]"
proof -
  obtain r t where rt: "migration E m [] = (r, t)" by (cases "migration E m []")
  then have "invocations t = []" using migration_invocations [of E m "[]" r t] by simp
  with rt assms show ?thesis
    unfolding Migration_exec_def
    by (auto split: sum.splits prod.splits if_splits simp: Let_def invocations_append)
qed

lemma run_ok_invocations:
  "fst (run E m d args []) = Inr x \<Longrightarrow>
   invocations (snd (run E m d args [])) = [(file m, method_name d)]"
  unfolding run_exec by (rule exec_invocations_ok)

lemma invocations_up_events:
  "\<forall>u\<in>set us. fst (run E u Up args []) = Inr () \<Longrightarrow>
   invocations (concat (map (\<lambda>u. snd (run E u Up args [])) us)) = map (\<lambda>u. (file u, ''up'')) us"
  by (induction us) (auto simp: invocations_append dest: run_ok_invocations)

text \<open>The execution loop on units that all succeed, and on units that succeed up to one.\<close>

lemma execute_up_all:
  assumes "\<forall>u\<in>set us. fst (run E u Up args []) = Inr ()"
    and "\<forall>u\<in>set us. F (LogMigration (file u)) = (\<lambda>ns. None)"
    and "distinct (map file us)"
    and "set (map file us) \<inter> set (names w) = {}"
  shows "execute_up E F args us acc w =
           (Inr (acc @ map file us),
            \<lparr>names = names w @ map file us,
             trace = trace w @ concat (map (\<lambda>u. snd (run E u Up args [])) us)\<rparr>)"
  using assms
proof (induction us arbitrary: acc w)
  case Nil
  then show ?case by simp
next
  case (Cons u us)
  have r: "run E u Up args (trace w) = (Inr (), trace w @ snd (run E u Up args []))"
    using Cons.prems(1) run_trace [of E u Up args "trace w"] by simp
  have l: "logMigration F (file u) (names w) = Inr (names w @ [file u])"
    using Cons.prems(2,4) by (simp add: logMigration_def)
  let ?w = "\<lparr>names = names w @ [file u], trace = trace w @ snd (run E u Up args [])\<rparr>"
  have "execute_up E F args us (acc @ [file u]) ?w =
          (Inr ((acc @ [file u]) @ map file us),
           \<lparr>names = names ?w @ map file us,
            trace = trace ?w @ concat (map (\<lambda>u. snd (run E u Up args [])) us)\<rparr>)"
    using Cons.prems by (intro Cons.IH) auto
  then show ?case using r l by simp
qed

lemma execute_up_fails:
  assumes "\<forall>v\<in>set pre. fst (run E v Up args []) = Inr ()"
    and "fst (run E u Up args []) = Inl e"
    and "\<forall>v\<in>set pre. F (LogMigration (file v)) = (\<lambda>ns. None)"
    and "distinct (map file pre)"
    and "set (map file pre) \<inter> set (names w) = {}"
  shows "execute_up E F args (pre @ u # post) acc w =
           (Inl (ExecutionError (file u) Up e (acc @ map file pre)),
            \<lparr>names = names w @ map file pre,
             trace = trace w @ concat (map (\<lambda>u. snd (run E u Up args [])) (pre @ [u]))\<rparr>)"
  using assms
proof (induction pre arbitrary: acc w)
  case Nil
  have "run E u Up args (trace w) = (Inl e, trace w @ snd (run E u Up args []))"
    using Nil.prems(2) run_trace [of E u Up args "trace w"] by simp
  then show ?case by simp
next
  case (Cons v pre)
  have r: "run E v Up args (trace w) = (Inr (), trace w @ snd (run E v Up args []))"
    using Cons.prems(1) run_trace [of E v Up args "trace w"] by simp
  have l: "logMigration F (file v) (names w) = Inr (names w @ [file v])"
    using Cons.prems(3,5) by (simp add: logMigration_def)
  let ?w = "\<lparr>names = names w @ [file v], trace = trace w @ snd (run E v Up args [])\<rparr>"
  have "execute_up E F args (pre @ u # post) (acc @ [file v]) ?w =
          (Inl (ExecutionError (file u) Up e ((acc @ [file v]) @ map file pre)),
           \<lparr>names = names ?w @ map file pre,
            trace = trace ?w @ concat (map (\<lambda>u. snd (run E u Up args [])) (pre @ [u]))\<rparr>)"
    using Cons.prems by (intro Cons.IH) auto
  then show ?case using r l by simp
qed

text \<open>A loop that ends without error has recorded every unit it was given.\<close>

lemma execute_up_records:
  "execute_up E F args us acc w = (Inr rs, w') \<Longrightarrow>
   set (names w) \<union> file ` set us \<subseteq> set (names w')"
proof (induction us arbitrary: acc w)
  case Nil
  then show ?case by auto
next
  case (Cons u us)
  from Cons.prems obtain tr ns where
    l: "logMigration F (file u) (names w) = Inr ns" and
    e: "execute_up E F args us (acc @ [file u]) \<lparr>names = ns, trace = tr\<rparr> = (Inr rs, w')"
    by (auto split: prod.splits sum.splits)
  from l have "set (names w) \<union> {file u} \<subseteq> set ns"
    by (auto simp: logMigration_def split: option.splits if_splits)
  moreover from Cons.IH [OF e] have "set ns \<union> file ` set us \<subseteq> set (names w')" by simp
  ultimately show ?case by auto
qed

text \<open>
  A unit whose action fails: the call reached the wrapped action, and the action threw,
  returned a promise that rejects, or returned a thenable that rejects.
\<close>

lemma action_failure_fails_run:
  assumes "migration E m [] = (Inr mig, tr1)"
    and "get_prop mig (method_name d) = Inr f"
    and "truthy f"
    and "get_prop (options m) ''migrations'' = Inr migs"
    and "get_prop migs ''wrap'' = Inr w"
    and "typeof w = ''function''"
    and "call E w migs [f] = Inr wrappedFun"
    and "apply_target wrappedFun mig args = Inr (g, this, as)"
    and "call E g this as = Inl e
         \<or> call E g this as = Inr (JRejected e)
         \<or> (call E g this as = Inr (JObj fs) \<and> has_then (JObj fs) \<and> adopt E (JObj fs) = Inl e)"
  shows "run E m d args [] =
           (Inl e, tr1 @ [Wrap w f, Invoke (file m) (method_name d) g this as])"
  using assms by (auto simp add: run_exec Migration_exec_def)







text \<open>The examples: what the units of the concrete environment do.\<close>

lemma demo_unit_constructed:
  "Migration_new demo_env n (demo_options r) [] =
     (Inr (demo_unit n r), [FormatName (JFun DefaultNameFormatter) (''/app/'' @ n)])"
  if "resolve ''/app'' n = ''/app/'' @ n" and "basename (''/app/'' @ n) = n"
  using that by (simp add: Migration_new_def demo_defs default_name_formatter_def)

lemma demo_run_4:
  "run demo_env (demo_unit n 4) d args tr =
     (Inr (), tr @ [CustomResolve (JFun (UserFn 4)) (''/app/'' @ n),
        Wrap (JFun (UserFn 0)) (JFun (UserFn 1)),
        Invoke n (method_name d) (JFun (UserFn 1))
          (JObj [(''up'', JFun (UserFn 1)), (''down'', JFun (UserFn 1))]) args])"
  by (cases d) (simp_all add: demo_defs)

lemma demo_run_8:
  "run demo_env (demo_unit n 8) d args tr =
     (Inl (JError ''boom''), tr @ [CustomResolve (JFun (UserFn 8)) (''/app/'' @ n),
        Wrap (JFun (UserFn 0)) (JFun (UserFn 3)),
        Invoke n (method_name d) (JFun (UserFn 3))
          (JObj [(''up'', JFun (UserFn 3)), (''down'', JFun (UserFn 3))]) args])"
  by (cases d) (simp_all add: demo_defs)

section \<open>Claims about the class Migration\<close>

text \<open>
  Claim C5. For every migration unit whose obtained definition lacks the requested method
  (the property \<open>up\<close>, respectively \<open>down\<close>, is absent or falsy), the invocation of
  \<open>up()\<close>, respectively \<open>down()\<close>, raises the error
  \<^verbatim>\<open>Could not find migration method: <method>\<close>, which names the missing method, and no
  action is invoked: the trace is the one left by obtaining the definition, and it holds
  no more action invocations than before the call.
\<close>

theorem missing_method_raises:
  assumes "migration E m tr = (Inr mig, tr1)"
    and "get_prop mig (method_name d) = Inr f"
    and "\<not> truthy f"
  shows "run E m d args tr =
           (Inl (JError (''Could not find migration method: '' @ method_name d)), tr1)
         \<and> invocations tr1 = invocations tr"
  using assms by (simp add: run_exec Migration_exec_def migration_invocations)

theorem missing_method_raises_witness:
  "migration demo_env (demo_unit ''m1.js'' 5) [] =
     (Inr (JObj [(''up'', JFun (UserFn 1))]), [CustomResolve (JFun (UserFn 5)) ''/app/m1.js''])
   \<and> get_prop (JObj [(''up'', JFun (UserFn 1))]) (method_name Down) = Inr JUndefined
   \<and> \<not> truthy JUndefined
   \<and> run demo_env (demo_unit ''m1.js'' 5) Down [] [] =
       (Inl (JError ''Could not find migration method: down''),
        [CustomResolve (JFun (UserFn 5)) ''/app/m1.js''])"
proof -
  have 1: "migration demo_env (demo_unit ''m1.js'' 5) [] =
     (Inr (JObj [(''up'', JFun (UserFn 1))]), [CustomResolve (JFun (UserFn 5)) ''/app/m1.js''])"
    by (simp add: demo_defs)
  have 2: "get_prop (JObj [(''up'', JFun (UserFn 1))]) (method_name Down) = Inr JUndefined"
    by simp
  have 3: "\<not> truthy JUndefined" by simp
  from missing_method_raises [OF 1 2 3, of "[]"] 1 2 3 show ?thesis by simp
qed

text \<open>
  Claim C6. For every migration unit, if the wrapped action, when invoked through \<open>up()\<close>
  or \<open>down()\<close>, returns a value that is not awaitable (a falsy value, or a value whose
  \<open>then\<close> is not a function), the invocation raises the error
  \<^verbatim>\<open>Migration <file> (or wrapper) didn't return a promise\<close>, which names the migration.
  The hypotheses say that the call got as far as the wrapped action: the definition was
  obtained, it has the method, the wrapper returned \<open>wrappedFun\<close>, and applying it
  returned \<open>result\<close>.
\<close>

theorem not_awaitable_raises:
  assumes "migration E m tr = (Inr mig, tr1)"
    and "get_prop mig (method_name d) = Inr f"
    and "truthy f"
    and "get_prop (options m) ''migrations'' = Inr migs"
    and "get_prop migs ''wrap'' = Inr w"
    and "typeof w = ''function''"
    and "call E w migs [f] = Inr wrappedFun"
    and "apply_target wrappedFun mig args = Inr (g, this, as)"
    and "call E g this as = Inr result"
    and "\<not> truthy result \<or> \<not> has_then result"
  shows "run E m d args tr =
           (Inl (JError (''Migration '' @ file m @ '' (or wrapper) didn'' @ quote
                   @ ''t return a promise'')),
            tr1 @ [Wrap w f, Invoke (file m) (method_name d) g this as])"
  using assms by (auto simp add: run_exec Migration_exec_def)

theorem not_awaitable_raises_witness:
  "run demo_env (demo_unit ''m1.js'' 7) Up [] [] =
     (Inl (JError (''Migration m1.js (or wrapper) didn'' @ quote @ ''t return a promise'')),
      [CustomResolve (JFun (UserFn 7)) ''/app/m1.js'',
       Wrap (JFun (UserFn 0)) (JFun (UserFn 2)),
       Invoke ''m1.js'' ''up'' (JFun (UserFn 2))
         (JObj [(''up'', JFun (UserFn 2)), (''down'', JFun (UserFn 2))]) []])"
proof -
  let ?mig = "JObj [(''up'', JFun (UserFn 2)), (''down'', JFun (UserFn 2))]"
  let ?migs = "JObj (merged_migrations (demo_migrations 7))"
  have 1: "migration demo_env (demo_unit ''m1.js'' 7) [] =
             (Inr ?mig, [CustomResolve (JFun (UserFn 7)) ''/app/m1.js''])"
    by (simp add: demo_defs)
  have 2: "get_prop ?mig (method_name Up) = Inr (JFun (UserFn 2))" by simp
  have 3: "truthy (JFun (UserFn 2))" by simp
  have 4: "get_prop (options (demo_unit ''m1.js'' 7)) ''migrations'' = Inr ?migs"
    by (simp add: demo_defs)
  have 5: "get_prop ?migs ''wrap'' = Inr (JFun (UserFn 0))" by (simp add: demo_defs)
  have 6: "typeof (JFun (UserFn 0)) = ''function''" by simp
  have 7: "call demo_env (JFun (UserFn 0)) ?migs [JFun (UserFn 2)] = Inr (JFun (UserFn 2))"
    by (simp add: demo_defs)
  have 8: "apply_target (JFun (UserFn 2)) ?mig [] = Inr (JFun (UserFn 2), ?mig, [])" by simp
  have 9: "call demo_env (JFun (UserFn 2)) ?mig [] = Inr JUndefined" by (simp add: demo_defs)
  have 10: "\<not> truthy JUndefined \<or> \<not> has_then JUndefined" by simp
  from not_awaitable_raises [OF 1 2 3 4 5 6 7 8 9 10] show ?thesis
    by (simp add: demo_unit_def)
qed

text \<open>
  Claim C7. For every migration unit, if the resolver (the custom resolver when
  \<open>customResolver\<close> is a function, \<^verbatim>\<open>require\<close> otherwise; both are \<open>obtain_module\<close>)
  returns a falsy value, then \<open>migration()\<close>, and with it \<open>up()\<close> and \<open>down()\<close>, raises
  the error \<^verbatim>\<open>Failed to obtain migration definition module for '<path>'\<close>, which names
  the path of the unit.
\<close>

theorem resolver_returning_nothing_raises:
  assumes "get_prop (options m) ''migrations'' = Inr migs"
    and "get_prop migs ''customResolver'' = Inr cr"
    and "obtain_module E m migs cr tr = (Inr r, tr1)"
    and "\<not> truthy r"
  shows "migration E m tr =
           (Inl (JError (''Failed to obtain migration definition module for ''
                   @ quote @ path m @ quote)), tr1)
         \<and> run E m d args tr =
           (Inl (JError (''Failed to obtain migration definition module for ''
                   @ quote @ path m @ quote)), tr1)"
  using assms by (simp add: run_exec Migration_exec_def migration_def)

theorem resolver_returning_nothing_raises_witness:
  "migration demo_env (demo_unit ''m1.js'' 6) [] =
     (Inl (JError (''Failed to obtain migration definition module for ''
             @ quote @ ''/app/m1.js'' @ quote)),
      [CustomResolve (JFun (UserFn 6)) ''/app/m1.js''])
   \<and> run demo_env \<lparr>path = ''/app/m2.js'', options = JObj [(''migrations'', JObj [])],
                    file = ''m2.js''\<rparr> Up [] [] =
     (Inl (JError (''Failed to obtain migration definition module for ''
             @ quote @ ''/app/m2.js'' @ quote)),
      [Require ''/app/m2.js''])"
proof -
  let ?migs = "JObj (merged_migrations (demo_migrations 6))"
  let ?m2 = "\<lparr>path = ''/app/m2.js'', options = JObj [(''migrations'', JObj [])],
              file = ''m2.js''\<rparr>"
  have 1: "get_prop (options (demo_unit ''m1.js'' 6)) ''migrations'' = Inr ?migs"
    by (simp add: demo_defs)
  have 2: "get_prop ?migs ''customResolver'' = Inr (JFun (UserFn 6))"
    by (simp add: demo_defs)
  have 3: "obtain_module demo_env (demo_unit ''m1.js'' 6) ?migs (JFun (UserFn 6)) [] =
             (Inr JUndefined, [CustomResolve (JFun (UserFn 6)) ''/app/m1.js''])"
    by (simp add: demo_defs)
  have 4: "\<not> truthy JUndefined" by simp
  have 5: "get_prop (options ?m2) ''migrations'' = Inr (JObj [])" by simp
  have 6: "get_prop (JObj []) ''customResolver'' = Inr JUndefined" by simp
  have 7: "obtain_module demo_env ?m2 (JObj []) JUndefined [] = (Inr JNull, [Require ''/app/m2.js''])"
    by (simp add: demo_defs)
  have 8: "\<not> truthy JNull" by simp
  from resolver_returning_nothing_raises [OF 1 2 3 4, of Up "[]"]
       resolver_returning_nothing_raises [OF 5 6 7 8, of Up "[]"]
  show ?thesis by (simp add: demo_unit_def)
qed

text \<open>
  Claim C9. When the migration definition is obtained, the \<open>default\<close> export is unwrapped
  exactly when the resolved value lacks both \<open>up\<close> and \<open>down\<close> (each is absent or falsy)
  and its \<open>default\<close> is truthy; the value returned is then that \<open>default\<close> itself, whatever
  it contains, so the unwrapping happens once. A value with a truthy \<open>up\<close> or \<open>down\<close> is
  returned as it is.
\<close>

theorem default_unwrapped_once:
  assumes "get_prop (options m) ''migrations'' = Inr migs"
    and "get_prop migs ''customResolver'' = Inr cr"
    and "obtain_module E m migs cr tr = (Inr r, tr1)"
    and "truthy r"
    and "get_prop r ''up'' = Inr u"
    and "get_prop r ''down'' = Inr d"
    and "get_prop r ''default'' = Inr df"
  shows "migration E m tr =
           (async_return E (if \<not> truthy u \<and> \<not> truthy d \<and> truthy df then df else r), tr1)
         \<and> (\<not> has_then (if \<not> truthy u \<and> \<not> truthy d \<and> truthy df then df else r)
              \<longrightarrow> migration E m tr =
                    (Inr (if \<not> truthy u \<and> \<not> truthy d \<and> truthy df then df else r), tr1))"
  using assms by (simp add: migration_def async_return_def)

theorem default_unwrapped_once_witness:
  "migration demo_env (demo_unit ''m1.js'' 10) [] =
     (Inr (JObj [(''default'', JObj [(''up'', JFun (UserFn 1))])]),
      [CustomResolve (JFun (UserFn 10)) ''/app/m1.js''])
   \<and> migration demo_env (demo_unit ''m1.js'' 5) [] =
     (Inr (JObj [(''up'', JFun (UserFn 1))]), [CustomResolve (JFun (UserFn 5)) ''/app/m1.js''])"
proof -
  let ?inner = "JObj [(''default'', JObj [(''up'', JFun (UserFn 1))])]"
  let ?r = "JObj [(''default'', ?inner)]"
  let ?r5 = "JObj [(''up'', JFun (UserFn 1))]"
  have 1: "get_prop (options (demo_unit ''m1.js'' 10)) ''migrations''
             = Inr (JObj (merged_migrations (demo_migrations 10)))"
    by (simp add: demo_defs)
  have 2: "get_prop (JObj (merged_migrations (demo_migrations 10))) ''customResolver''
             = Inr (JFun (UserFn 10))"
    by (simp add: demo_defs)
  have 3: "obtain_module demo_env (demo_unit ''m1.js'' 10)
             (JObj (merged_migrations (demo_migrations 10))) (JFun (UserFn 10)) [] =
             (Inr ?r, [CustomResolve (JFun (UserFn 10)) ''/app/m1.js''])"
    by (simp add: demo_defs)
  have 4: "truthy ?r" by simp
  have 5: "get_prop ?r ''up'' = Inr JUndefined" by simp
  have 6: "get_prop ?r ''down'' = Inr JUndefined" by simp
  have 7: "get_prop ?r ''default'' = Inr ?inner" by simp
  have a: "get_prop (options (demo_unit ''m1.js'' 5)) ''migrations''
             = Inr (JObj (merged_migrations (demo_migrations 5)))"
    by (simp add: demo_defs)
  have b: "get_prop (JObj (merged_migrations (demo_migrations 5))) ''customResolver''
             = Inr (JFun (UserFn 5))"
    by (simp add: demo_defs)
  have c: "obtain_module demo_env (demo_unit ''m1.js'' 5)
             (JObj (merged_migrations (demo_migrations 5))) (JFun (UserFn 5)) [] =
             (Inr ?r5, [CustomResolve (JFun (UserFn 5)) ''/app/m1.js''])"
    by (simp add: demo_defs)
  have d: "truthy ?r5" by simp
  have e: "get_prop ?r5 ''up'' = Inr (JFun (UserFn 1))" by simp
  have f: "get_prop ?r5 ''down'' = Inr JUndefined" by simp
  have g: "get_prop ?r5 ''default'' = Inr JUndefined" by simp
  from default_unwrapped_once [OF 1 2 3 4 5 6 7] default_unwrapped_once [OF a b c d e f g]
  show ?thesis by (simp add: async_return_def)
qed

text \<open>
  Claim C10. For every path and options: if the name formatter in force (the configured
  one, or the default \<^verbatim>\<open>path.basename\<close>) applied to the resolved path returns a value
  that is not a string, the constructor throws
  \<^verbatim>\<open>Unexpected migration formatter result for '<path>': expected string, got <type>\<close>
  and no unit is created. Consequently, whenever the constructor does create a unit, the
  formatter returned a string on the unit's path, and that string is the unit's \<open>file\<close>.
\<close>

theorem formatter_result_must_be_string:
  "(get_prop opts ''migrations'' = Inr om
      \<and> call E (lookup (merged_migrations om) ''nameFormatter'') (JObj (merged_migrations om))
            [JStr (resolve (cwd E) p)] = Inr v
      \<and> typeof v \<noteq> ''string''
     \<longrightarrow> Migration_new E p opts tr =
           (Inl (JError (''Unexpected migration formatter result for '' @ quote
                   @ resolve (cwd E) p @ quote @ '': expected string, got '' @ typeof v)),
            tr @ [FormatName (lookup (merged_migrations om) ''nameFormatter'') (resolve (cwd E) p)]))
   \<and> (Migration_new E p opts tr = (Inr m, tr')
     \<longrightarrow> path m = resolve (cwd E) p
         \<and> (\<exists>om. get_prop opts ''migrations'' = Inr om
              \<and> call E (lookup (merged_migrations om) ''nameFormatter'')
                   (JObj (merged_migrations om)) [JStr (path m)] = Inr (JStr (file m))))"
proof (intro conjI impI)
  assume a: "get_prop opts ''migrations'' = Inr om
      \<and> call E (lookup (merged_migrations om) ''nameFormatter'') (JObj (merged_migrations om))
            [JStr (resolve (cwd E) p)] = Inr v
      \<and> typeof v \<noteq> ''string''"
  then have "typeof (lookup (merged_migrations om) ''nameFormatter'') = ''function''"
    using call_Inr_function by blast
  with a show "Migration_new E p opts tr =
           (Inl (JError (''Unexpected migration formatter result for '' @ quote
                   @ resolve (cwd E) p @ quote @ '': expected string, got '' @ typeof v)),
            tr @ [FormatName (lookup (merged_migrations om) ''nameFormatter'') (resolve (cwd E) p)])"
    unfolding Migration_new_def Let_def
    by (cases v) (simp_all del: lookup.simps)
next
  assume b: "Migration_new E p opts tr = (Inr m, tr')"
  then show "path m = resolve (cwd E) p"
    unfolding Migration_new_def Let_def
    by (auto split: sum.splits if_splits jsval.splits)
  from b show "\<exists>om. get_prop opts ''migrations'' = Inr om
              \<and> call E (lookup (merged_migrations om) ''nameFormatter'')
                   (JObj (merged_migrations om)) [JStr (path m)] = Inr (JStr (file m))"
    unfolding Migration_new_def Let_def
    by (auto split: sum.splits if_splits jsval.splits)
qed

theorem formatter_result_must_be_string_witness:
  "Migration_new demo_env ''m1.js''
     (JObj [(''migrations'', JObj [(''nameFormatter'', JFun (UserFn 9))])]) [] =
     (Inl (JError (''Unexpected migration formatter result for '' @ quote @ ''/app/m1.js''
             @ quote @ '': expected string, got number'')),
      [FormatName (JFun (UserFn 9)) ''/app/m1.js''])
   \<and> call demo_env (JFun DefaultNameFormatter) (JObj (merged_migrations (demo_migrations 4)))
         [JStr ''/app/m1.js''] = Inr (JStr ''m1.js'')"
proof -
  let ?om = "JObj [(''nameFormatter'', JFun (UserFn 9))]"
  have r: "resolve (cwd demo_env) ''m1.js'' = ''/app/m1.js''"
    by (simp add: demo_env_def resolve_def slash_def)
  have 1: "get_prop (JObj [(''migrations'', ?om)]) ''migrations'' = Inr ?om" by simp
  have l: "lookup (merged_migrations ?om) ''nameFormatter'' = JFun (UserFn 9)"
    by (simp add: merged_migrations_def)
  have 2: "call demo_env (lookup (merged_migrations ?om) ''nameFormatter'')
             (JObj (merged_migrations ?om)) [JStr (resolve (cwd demo_env) ''m1.js'')] = Inr (JNum 7)"
    unfolding l r by (simp add: call_def demo_env_def demo_invoke_def)
  have 3: "typeof (JNum 7) \<noteq> ''string''" by simp
  have c: "Migration_new demo_env ''m1.js'' (demo_options 4) [] =
             (Inr (demo_unit ''m1.js'' 4), [FormatName (JFun DefaultNameFormatter) ''/app/m1.js''])"
    using demo_unit_constructed [of "''m1.js''" 4]
    by (simp add: resolve_def basename_def slash_def)
  have g: "get_prop (demo_options 4) ''migrations'' = Inr (demo_migrations 4)"
    by (simp add: demo_options_def)
  have n: "lookup (merged_migrations (demo_migrations 4)) ''nameFormatter'' = JFun DefaultNameFormatter"
    by (simp add: merged_migrations_def demo_migrations_def)
  note t1 = formatter_result_must_be_string
    [of "JObj [(''migrations'', ?om)]" ?om demo_env "''m1.js''" "JNum 7" "[]", THEN conjunct1]
  note t2 = formatter_result_must_be_string
    [of "demo_options 4" _ demo_env "''m1.js''" _ "[]" "demo_unit ''m1.js'' 4"
        "[FormatName (JFun DefaultNameFormatter) ''/app/m1.js'']", THEN conjunct2]
  from t1 1 2 3 have A: "Migration_new demo_env ''m1.js'' (JObj [(''migrations'', ?om)]) [] =
     (Inl (JError (''Unexpected migration formatter result for '' @ quote @ ''/app/m1.js''
             @ quote @ '': expected string, got number'')),
      [FormatName (JFun (UserFn 9)) ''/app/m1.js''])"
    unfolding l r by simp
  from t2 c g n have B: "call demo_env (JFun DefaultNameFormatter)
         (JObj (merged_migrations (demo_migrations 4))) [JStr ''/app/m1.js''] = Inr (JStr ''m1.js'')"
    by (auto simp: demo_unit_def)
  from A B show ?thesis by simp
qed

section \<open>Claims about the orchestrator\<close>

text \<open>
  The calls start from the world \<open>fresh\<close> (empty Execution Record, empty trace) where the
  claim says so, and the storage adapter is the one that never fails, \<open>no_fault\<close>, unless
  the fault oracle \<open>F\<close> is mentioned. That the \<open>up\<close> of a unit completes without error is
  written \<open>fst (run E u Up args []) = Inr ()\<close>: by \<open>run_trace\<close> the outcome of a unit does
  not depend on the trace the call starts from.
\<close>

text \<open>
  Claim C1, as stated, speaks of every resolved sequence. It does not hold for a sequence
  with a unit whose \<open>up\<close> fails: the engine stops at that unit and does not record it.
  For the sequence of the single unit \<open>m1.js\<close> whose action throws, \<open>up()\<close> raises and
  \<open>executed()\<close> afterwards returns no unit.
\<close>

theorem up_with_failing_unit_counterexample:
  "fst (Umzug_up demo_env no_fault [] [demo_unit ''m1.js'' 8] fresh)
     = Inl (ExecutionError ''m1.js'' Up (JError ''boom'') [])
   \<and> Umzug_executed no_fault [demo_unit ''m1.js'' 8]
       (snd (Umzug_up demo_env no_fault [] [demo_unit ''m1.js'' 8] fresh)) = Inr []
   \<and> Umzug_executed no_fault [demo_unit ''m1.js'' 8]
       (snd (Umzug_up demo_env no_fault [] [demo_unit ''m1.js'' 8] fresh))
       \<noteq> Inr [demo_unit ''m1.js'' 8]"
  by (simp add: engine_defs demo_run_8) (simp add: demo_unit_def)

text \<open>
  Claim C1, amended. For every resolved sequence \<open>S\<close> (no two units share a name) and an
  initially empty Execution Record, if the \<open>up\<close> of every unit completes without error
  (and no storage operation fails), calling \<open>up()\<close> with no argument invokes the up action
  of every unit of \<open>S\<close> exactly once, in sequence order, and afterwards \<open>executed()\<close>
  returns exactly the units of \<open>S\<close>, in sequence order.
\<close>

theorem up_runs_every_unit_in_order:
  assumes "distinct (map file S)"
    and "\<forall>u\<in>set S. fst (run E u Up args []) = Inr ()"
  shows "fst (Umzug_up E no_fault args S fresh) = Inr (map file S)
         \<and> names (snd (Umzug_up E no_fault args S fresh)) = map file S
         \<and> invocations (trace (snd (Umzug_up E no_fault args S fresh)))
             = map (\<lambda>u. (file u, ''up'')) S
         \<and> Umzug_executed no_fault S (snd (Umzug_up E no_fault args S fresh)) = Inr S"
proof -
  have p: "Umzug_pending no_fault S fresh = Inr S"
    by (simp add: engine_defs)
  have "execute_up E no_fault args S [] fresh =
          (Inr ([] @ map file S),
           \<lparr>names = names fresh @ map file S,
            trace = trace fresh @ concat (map (\<lambda>u. snd (run E u Up args [])) S)\<rparr>)"
    using assms by (intro execute_up_all) (auto simp: no_fault_def fresh_def)
  then have "Umzug_up E no_fault args S fresh =
          (Inr (map file S),
           \<lparr>names = map file S, trace = concat (map (\<lambda>u. snd (run E u Up args [])) S)\<rparr>)"
    using p by (simp add: Umzug_up_def fresh_def)
  then show ?thesis
    using assms(2)
    by (simp add: Umzug_executed_def storage_executed_def no_fault_def invocations_up_events)
qed

theorem up_runs_every_unit_in_order_witness:
  "distinct (map file [demo_unit ''m1.js'' 4, demo_unit ''m2.js'' 4])
   \<and> fst (run demo_env (demo_unit ''m1.js'' 4) Up [] []) = Inr ()
   \<and> fst (run demo_env (demo_unit ''m2.js'' 4) Up [] []) = Inr ()
   \<and> fst (Umzug_up demo_env no_fault [] [demo_unit ''m1.js'' 4, demo_unit ''m2.js'' 4] fresh)
       = Inr [''m1.js'', ''m2.js'']
   \<and> invocations (trace (snd (Umzug_up demo_env no_fault []
         [demo_unit ''m1.js'' 4, demo_unit ''m2.js'' 4] fresh)))
       = [(''m1.js'', ''up''), (''m2.js'', ''up'')]
   \<and> Umzug_executed no_fault [demo_unit ''m1.js'' 4, demo_unit ''m2.js'' 4]
        (snd (Umzug_up demo_env no_fault [] [demo_unit ''m1.js'' 4, demo_unit ''m2.js'' 4] fresh))
       = Inr [demo_unit ''m1.js'' 4, demo_unit ''m2.js'' 4]"
proof -
  let ?S = "[demo_unit ''m1.js'' 4, demo_unit ''m2.js'' 4]"
  have f: "map file ?S = [''m1.js'', ''m2.js'']" by (simp add: demo_unit_def)
  have 1: "distinct (map file ?S)" unfolding f by simp
  have 2: "\<forall>u\<in>set ?S. fst (run demo_env u Up [] []) = Inr ()"
    by (simp add: demo_run_4)
  from up_runs_every_unit_in_order [OF 1 2] 1 2 show ?thesis
    by (simp add: demo_unit_def)
qed

text \<open>
  Claim C2. For every resolved sequence \<open>S\<close> and an initially empty Execution Record: if
  during \<open>up()\<close> the action of unit \<open>k\<close> throws, then exactly the units before it are
  recorded as executed, unit \<open>k\<close> is not recorded, the actions of the units after it are
  never invoked, and \<open>up()\<close> raises an error that identifies the failed unit (with the
  cause and the names already committed). The unit \<open>k\<close> is \<open>u\<close>, the units \<open>pre\<close> before
  it completed and the units \<open>post\<close> follow it. That the action of \<open>u\<close> throws is said of
  the action itself: the call of \<open>up\<close> on \<open>u\<close> obtained the definition \<open>mig\<close>, found its
  method \<open>f\<close>, wrapped it and applied the wrapped method \<open>g\<close>, and \<open>g\<close> threw \<open>e\<close>, or
  returned a promise that rejects with \<open>e\<close>, or returned a thenable that rejects with
  \<open>e\<close>. The action of \<open>u\<close> is then the last one invoked. The sequence may have any
  length, two or more included.
\<close>

theorem up_stops_at_first_failure:
  assumes "S = pre @ u # post"
    and "distinct (map file S)"
    and "\<forall>v\<in>set pre. fst (run E v Up args []) = Inr ()"
    and "migration E u [] = (Inr mig, tr1)"
    and "get_prop mig ''up'' = Inr f"
    and "truthy f"
    and "get_prop (options u) ''migrations'' = Inr migs"
    and "get_prop migs ''wrap'' = Inr w"
    and "typeof w = ''function''"
    and "call E w migs [f] = Inr wrappedFun"
    and "apply_target wrappedFun mig args = Inr (g, this, as)"
    and "call E g this as = Inl e
         \<or> call E g this as = Inr (JRejected e)
         \<or> (call E g this as = Inr (JObj fs) \<and> has_then (JObj fs) \<and> adopt E (JObj fs) = Inl e)"
  shows "fst (Umzug_up E no_fault args S fresh)
           = Inl (ExecutionError (file u) Up e (map file pre))
         \<and> names (snd (Umzug_up E no_fault args S fresh)) = map file pre
         \<and> Umzug_executed no_fault S (snd (Umzug_up E no_fault args S fresh)) = Inr pre
         \<and> file u \<notin> set (names (snd (Umzug_up E no_fault args S fresh)))
         \<and> invocations (trace (snd (Umzug_up E no_fault args S fresh)))
              = map (\<lambda>v. (file v, ''up'')) (pre @ [u])
         \<and> (\<forall>v\<in>set post.
              file v \<notin> fst ` set (invocations (trace (snd (Umzug_up E no_fault args S fresh)))))"
proof -
  let ?new = "concat (map (\<lambda>u. snd (run E u Up args [])) (pre @ [u]))"
  let ?w' = "\<lparr>names = map file pre, trace = ?new\<rparr>"
  have f5: "get_prop mig (method_name Up) = Inr f" using assms(5) by simp
  have r: "run E u Up args [] =
             (Inl e, tr1 @ [Wrap w f, Invoke (file u) (method_name Up) g this as])"
    by (rule action_failure_fails_run [OF assms(4) f5 assms(6-12)])
  then have fails: "fst (run E u Up args []) = Inl e" by simp
  have "invocations tr1 = invocations []"
    by (rule migration_invocations [OF assms(4)])
  with r have iu: "invocations (snd (run E u Up args [])) = [(file u, ''up'')]"
    by (simp add: invocations_append)
  have p: "Umzug_pending no_fault S fresh = Inr S"
    by (simp add: engine_defs)
  have "execute_up E no_fault args (pre @ u # post) [] fresh =
          (Inl (ExecutionError (file u) Up e ([] @ map file pre)),
           \<lparr>names = names fresh @ map file pre, trace = trace fresh @ ?new\<rparr>)"
    using assms(1-3) fails by (intro execute_up_fails) (auto simp: no_fault_def fresh_def)
  then have 1: "Umzug_up E no_fault args S fresh =
                  (Inl (ExecutionError (file u) Up e (map file pre)), ?w')"
    using p assms(1) by (simp add: Umzug_up_def fresh_def)
  have d: "file u \<notin> file ` set pre"
    "\<forall>v\<in>set post. file v \<notin> file ` set pre \<and> file v \<noteq> file u"
    using assms(1,2) by (auto simp: image_iff)
  have 2: "Umzug_executed no_fault S ?w' = Inr pre"
    using assms(1) d
    by (auto simp: Umzug_executed_def storage_executed_def no_fault_def filter_empty_conv
        image_iff intro!: filter_True)
  have 3: "invocations ?new = map (\<lambda>v. (file v, ''up'')) (pre @ [u])"
    using assms(3) iu by (simp add: invocations_append invocations_up_events)
  have 4: "\<forall>v\<in>set post. file v \<notin> fst ` set (invocations ?new)"
    using 3 d by (auto simp: image_iff)
  show ?thesis unfolding 1 using 2 3 4 d(1) by simp
qed

theorem up_stops_at_first_failure_witness:
  "fst (Umzug_up demo_env no_fault []
          [demo_unit ''m1.js'' 4, demo_unit ''m2.js'' 8, demo_unit ''m3.js'' 4] fresh)
     = Inl (ExecutionError ''m2.js'' Up (JError ''boom'') [''m1.js''])
   \<and> names (snd (Umzug_up demo_env no_fault []
          [demo_unit ''m1.js'' 4, demo_unit ''m2.js'' 8, demo_unit ''m3.js'' 4] fresh))
     = [''m1.js'']
   \<and> invocations (trace (snd (Umzug_up demo_env no_fault []
          [demo_unit ''m1.js'' 4, demo_unit ''m2.js'' 8, demo_unit ''m3.js'' 4] fresh)))
     = [(''m1.js'', ''up''), (''m2.js'', ''up'')]
   \<and> fst (Umzug_up demo_env no_fault []
          [demo_unit ''m1.js'' 4, demo_unit ''m2.js'' 11, demo_unit ''m3.js'' 4] fresh)
     = Inl (ExecutionError ''m2.js'' Up (JError ''nope'') [''m1.js''])
   \<and> names (snd (Umzug_up demo_env no_fault []
          [demo_unit ''m1.js'' 4, demo_unit ''m2.js'' 11, demo_unit ''m3.js'' 4] fresh))
     = [''m1.js'']
   \<and> invocations (trace (snd (Umzug_up demo_env no_fault []
          [demo_unit ''m1.js'' 4, demo_unit ''m2.js'' 11, demo_unit ''m3.js'' 4] fresh)))
     = [(''m1.js'', ''up''), (''m2.js'', ''up'')]"
proof -
  let ?pre = "[demo_unit ''m1.js'' 4]"
  let ?post = "[demo_unit ''m3.js'' 4]"
  let ?u = "demo_unit ''m2.js'' 8"
  let ?mig = "JObj [(''up'', JFun (UserFn 3)), (''down'', JFun (UserFn 3))]"
  let ?migs = "JObj (merged_migrations (demo_migrations 8))"
  let ?v = "demo_unit ''m2.js'' 11"
  let ?mig' = "JObj [(''up'', JFun (UserFn 12)), (''down'', JFun (UserFn 12))]"
  let ?migs' = "JObj (merged_migrations (demo_migrations 11))"
  have pre: "\<forall>v\<in>set ?pre. fst (run demo_env v Up [] []) = Inr ()" by (simp add: demo_run_4)
  have a1: "[demo_unit ''m1.js'' 4, ?u, demo_unit ''m3.js'' 4] = ?pre @ ?u # ?post" by simp
  have a2: "distinct (map file [demo_unit ''m1.js'' 4, ?u, demo_unit ''m3.js'' 4])"
    by (simp add: demo_unit_def)
  have a4: "migration demo_env ?u [] = (Inr ?mig, [CustomResolve (JFun (UserFn 8)) ''/app/m2.js''])"
    by (simp add: demo_defs)
  have a5: "get_prop ?mig ''up'' = Inr (JFun (UserFn 3))" by simp
  have a6: "truthy (JFun (UserFn 3))" by simp
  have a7: "get_prop (options ?u) ''migrations'' = Inr ?migs" by (simp add: demo_defs)
  have a8: "get_prop ?migs ''wrap'' = Inr (JFun (UserFn 0))" by (simp add: demo_defs)
  have a9: "typeof (JFun (UserFn 0)) = ''function''" by simp
  have a10: "call demo_env (JFun (UserFn 0)) ?migs [JFun (UserFn 3)] = Inr (JFun (UserFn 3))"
    by (simp add: demo_defs)
  have a11: "apply_target (JFun (UserFn 3)) ?mig [] = Inr (JFun (UserFn 3), ?mig, [])" by simp
  have a12: "call demo_env (JFun (UserFn 3)) ?mig [] = Inl (JError ''boom'')
       \<or> call demo_env (JFun (UserFn 3)) ?mig [] = Inr (JRejected (JError ''boom''))
       \<or> (call demo_env (JFun (UserFn 3)) ?mig [] = Inr (JObj []) \<and> has_then (JObj [])
            \<and> adopt demo_env (JObj []) = Inl (JError ''boom''))"
    by (simp add: demo_defs)
  have b1: "[demo_unit ''m1.js'' 4, ?v, demo_unit ''m3.js'' 4] = ?pre @ ?v # ?post" by simp
  have b2: "distinct (map file [demo_unit ''m1.js'' 4, ?v, demo_unit ''m3.js'' 4])"
    by (simp add: demo_unit_def)
  have b4: "migration demo_env ?v [] = (Inr ?mig', [CustomResolve (JFun (UserFn 11)) ''/app/m2.js''])"
    by (simp add: demo_defs)
  have b5: "get_prop ?mig' ''up'' = Inr (JFun (UserFn 12))" by simp
  have b6: "truthy (JFun (UserFn 12))" by simp
  have b7: "get_prop (options ?v) ''migrations'' = Inr ?migs'" by (simp add: demo_defs)
  have b8: "get_prop ?migs' ''wrap'' = Inr (JFun (UserFn 0))" by (simp add: demo_defs)
  have b10: "call demo_env (JFun (UserFn 0)) ?migs' [JFun (UserFn 12)] = Inr (JFun (UserFn 12))"
    by (simp add: demo_defs)
  have b11: "apply_target (JFun (UserFn 12)) ?mig' [] = Inr (JFun (UserFn 12), ?mig', [])"
    by simp
  have b12: "call demo_env (JFun (UserFn 12)) ?mig' [] = Inl (JError ''nope'')
       \<or> call demo_env (JFun (UserFn 12)) ?mig' [] = Inr (JRejected (JError ''nope''))
       \<or> (call demo_env (JFun (UserFn 12)) ?mig' [] = Inr (JObj []) \<and> has_then (JObj [])
            \<and> adopt demo_env (JObj []) = Inl (JError ''nope''))"
    by (simp add: demo_defs)
  from up_stops_at_first_failure [OF a1 a2 pre a4 a5 a6 a7 a8 a9 a10 a11 a12]
       up_stops_at_first_failure [OF b1 b2 pre b4 b5 b6 b7 b8 a9 b10 b11 b12]
  show ?thesis by (simp add: demo_unit_def)
qed

text \<open>
  Claim C3. For every resolved sequence \<open>S\<close>: calling \<open>up()\<close> and then, without an
  intervening \<open>down()\<close>, \<open>up()\<close> again is a no-op the second time. The first call has
  completed without error, so the Execution Record already contains every unit (the
  condition under which the spec gives the guarantee); then the pending subset is empty,
  nothing is run and the world is left as it was (the record and the trace are
  unchanged), so the second call performs zero action invocations. The second hypothesis
  says that the adapter's read of the record succeeds in the second call.
\<close>

theorem second_up_is_noop:
  assumes "Umzug_up E F args S w = (Inr rs, w1)"
    and "F Executed (names w1) = None"
  shows "file ` set S \<subseteq> set (names w1)
         \<and> Umzug_up E F args S w1 = (Inr [], w1)
         \<and> Umzug_pending F S w1 = Inr []"
proof -
  from assms(1) obtain todo where
    p: "Umzug_pending F S w = Inr todo" and
    e: "execute_up E F args todo [] w = (Inr rs, w1)"
    by (auto simp: Umzug_up_def split: sum.splits)
  from p have todo: "\<forall>u\<in>set S. file u \<in> set (names w) \<or> u \<in> set todo"
    by (auto simp: Umzug_pending_def storage_executed_def split: option.splits)
  from execute_up_records [OF e] have "set (names w) \<union> file ` set todo \<subseteq> set (names w1)" .
  with todo have all: "\<forall>u\<in>set S. file u \<in> set (names w1)" by auto
  then have "Umzug_pending F S w1 = Inr []"
    using assms(2) by (simp add: Umzug_pending_def storage_executed_def filter_empty_conv)
  then show ?thesis using all by (auto simp add: Umzug_up_def)
qed

theorem second_up_is_noop_witness:
  "fst (Umzug_up demo_env no_fault [] [demo_unit ''m1.js'' 4, demo_unit ''m2.js'' 4] fresh)
     = Inr [''m1.js'', ''m2.js'']
   \<and> Umzug_up demo_env no_fault [] [demo_unit ''m1.js'' 4, demo_unit ''m2.js'' 4]
       (snd (Umzug_up demo_env no_fault [] [demo_unit ''m1.js'' 4, demo_unit ''m2.js'' 4] fresh))
     = (Inr [], snd (Umzug_up demo_env no_fault []
                       [demo_unit ''m1.js'' 4, demo_unit ''m2.js'' 4] fresh))"
proof -
  let ?S = "[demo_unit ''m1.js'' 4, demo_unit ''m2.js'' 4]"
  let ?first = "Umzug_up demo_env no_fault [] ?S fresh"
  have 1: "fst ?first = Inr [''m1.js'', ''m2.js'']"
    by (simp add: engine_defs demo_run_4) (simp add: demo_unit_def)
  then have 2: "?first = (Inr [''m1.js'', ''m2.js''], snd ?first)"
    by (metis prod.collapse)
  have 3: "no_fault Executed (names (snd ?first)) = None" by (rule no_fault_None)
  from second_up_is_noop [OF 2 3] 1 show ?thesis by simp
qed

section \<open>Claims about the resolution of a glob source\<close>




end
